theory Spec2Isabelle
  imports Main "HOL-Library.Word"
begin

section \<open>Shared primitives\<close>

text \<open>
  Fixed-size byte arrays of the Go code are read as words of the same width: a
  \<^verbatim>\<open>[32]byte\<close> is a \<open>256 word\<close>, and comparison with the zero array
  (\<^verbatim>\<open>[32]byte{}\<close>, \<^verbatim>\<open>common.ZeroAddress\<close>) is comparison with \<open>0\<close>.
\<close>

type_synonym ExecutionHash = "256 word"
type_synonym Root = "256 word"
type_synonym Bytes32 = "256 word"
type_synonym ExecutionAddress = "160 word"
type_synonym PayloadID = "64 word"
type_synonym Slot = "64 word"

text \<open>
  Go errors are values. The sentinel errors keep their Go names; \<open>ErrorNew\<close> is
  \<^verbatim>\<open>errors.New(msg)\<close>, \<open>ErrorNewf e msg\<close> is \<^verbatim>\<open>errors.Newf("%w" + msg, e)\<close>
  (an error wrapping \<open>e\<close>), \<open>PeerError\<close> stands for whatever error a collaborator outside
  these sources hands back.
\<close>

datatype error =
    ErrPayloadBuilderDisabled
  | ErrNilPayloadID
  | ErrPayloadIDNotFound
  | ErrNilPayloadEnvelope
  | ErrInvalidTimestamp
  | ErrEmptyPrevRandao
  | ErrNilWithdrawals
  | ErrEngineAPITimeout
  | ErrNilPayloadStatus
  | ErrInvalidPayloadType
  | ErrNilForkchoiceResponse
  | ErrInvalidPayloadAttributes
  | ErrInvalidGetPayloadVersion
  | ErrNilExecutionPayloadEnvelope
  | ErrNilBlobsBundle
  | ErrAcceptedPayloadStatus
  | ErrSyncingPayloadStatus
  | ErrInvalidPayloadStatus "string option"
  | ErrUnknownPayloadStatus
  | ContextCanceled
  | ContextDeadlineExceeded
  | ErrorNew string
  | ErrorNewf error string
  | PeerError nat

text \<open>\<^verbatim>\<open>errors.Is(err, target)\<close>: \<open>err\<close> is \<open>target\<close> or wraps it.\<close>

fun errors_Is :: "error \<Rightarrow> error \<Rightarrow> bool" where
  "errors_Is (ErrorNewf e msg) target =
     (ErrorNewf e msg = target \<or> errors_Is e target)"
| "errors_Is e target = (e = target)"

text \<open>
  The fork-version constants of package \<^verbatim>\<open>version\<close> (\<^verbatim>\<open>version.Capella\<close>,
  \<^verbatim>\<open>version.Deneb\<close>, \<^verbatim>\<open>version.Electra\<close>) are declared outside the sources at
  hand, so every function that reads one takes them as a parameter.
\<close>

record versions =
  Capella :: "32 word"
  Deneb :: "32 word"
  Electra :: "32 word"

section \<open>Payload attributes (attributes.go)\<close>

text \<open>
  \<open>Withdrawals\<close> is a Go slice: \<open>None\<close> is the nil slice, \<open>Some []\<close> an empty one.
\<close>

record 'w PayloadAttributes =
  version :: "32 word"
  Timestamp :: "64 word"
  PrevRandao :: Bytes32
  SuggestedFeeRecipient :: ExecutionAddress
  Withdrawals :: "'w list option"
  ParentBeaconBlockRoot :: Root

definition Validate :: "versions \<Rightarrow> 'w PayloadAttributes \<Rightarrow> error option" where
  "Validate v p =
     (if Timestamp p = 0 then Some ErrInvalidTimestamp
      else if PrevRandao p = 0 then Some ErrEmptyPrevRandao
      else if Withdrawals p = None \<and> Capella v \<le> version p then Some ErrNilWithdrawals
      else None)"

definition NewPayloadAttributes ::
  "versions \<Rightarrow> 32 word \<Rightarrow> 64 word \<Rightarrow> Bytes32 \<Rightarrow> ExecutionAddress \<Rightarrow> 'w list option \<Rightarrow> Root
   \<Rightarrow> 'w PayloadAttributes option \<times> error option" where
  "NewPayloadAttributes v forkVersion timestamp prevRandao suggestedFeeRecipient
       withdrawals parentBeaconBlockRoot =
     (let p = \<lparr> version = forkVersion,
                Timestamp = timestamp,
                PrevRandao = prevRandao,
                SuggestedFeeRecipient = suggestedFeeRecipient,
                Withdrawals = withdrawals,
                ParentBeaconBlockRoot = parentBeaconBlockRoot \<rparr>
      in case Validate v p of
           Some err \<Rightarrow> (None, Some err)
         | None \<Rightarrow> (Some p, None))"

section \<open>Engine client (client package)\<close>

text \<open>
  A \<^verbatim>\<open>context.Context\<close> as the code uses it: the instant at which its
  \<^verbatim>\<open>Done()\<close> channel closes (\<open>None\<close>: never) and the error \<^verbatim>\<open>Err()\<close> reports
  from then on. \<open>WithTimeoutCause\<close> is the derived context handed to the transport.
\<close>

record Context =
  done_at :: "int option"
  ctx_Err :: error

record deadline_ctx =
  parent :: Context
  timeout :: int
  cause :: error

definition WithTimeoutCause :: "Context \<Rightarrow> int \<Rightarrow> error \<Rightarrow> deadline_ctx" where
  "WithTimeoutCause ctx d c = \<lparr> parent = ctx, timeout = d, cause = c \<rparr>"

datatype PayloadStatusStr =
    PayloadStatusValid
  | PayloadStatusInvalid
  | PayloadStatusSyncing
  | PayloadStatusAccepted
  | PayloadStatusOther string

record PayloadStatusV1 =
  Status :: PayloadStatusStr
  LatestValidHash :: "ExecutionHash option"
  ValidationError :: "string option"

record ForkchoiceStateV1 =
  HeadBlockHash :: ExecutionHash
  SafeBlockHash :: ExecutionHash
  FinalizedBlockHash :: ExecutionHash

record ForkchoiceResponseV1 =
  PayloadStatus :: PayloadStatusV1
  PayloadID :: "PayloadID option"

text \<open>
  The execution payload and the payload envelope are interfaces in the code; a value of
  an interface is modelled by what its methods return.
\<close>

record ExecutionPayload =
  Version :: "32 word"
  IsNil :: bool
  GetBlockHash :: ExecutionHash
  GetParentHash :: ExecutionHash
  GetFeeRecipient :: ExecutionAddress

record 'b BuiltExecutionPayloadEnv =
  GetExecutionPayload :: ExecutionPayload
  GetBlobsBundle :: "'b option"
  ShouldOverrideBuilder :: bool

record 'w ForkchoiceUpdateRequest =
  State :: ForkchoiceStateV1
  PayloadAttributes :: "'w PayloadAttributes option"
  ForkVersion :: "32 word"

record GetPayloadRequest =
  req_PayloadID :: PayloadID
  req_ForkVersion :: "32 word"

text \<open>
  Everything a call does besides returning is appended to a trace: log lines, metric
  updates, payload-cache accesses, JSON-RPC calls of the engine client to the execution
  peer (\<open>Rpc...\<close>) and calls of the payload builder to its execution engine (\<open>Engine...\<close>).
\<close>

datatype log_level = Info | Warn | Error

datatype 'w event =
    Log log_level string
  | Metric string
  | CacheGet Slot Root
  | CacheSet Slot Root PayloadID
  | RpcNewPayloadV3 ExecutionPayload "ExecutionHash list" "Root option"
  | RpcForkchoiceUpdatedV3 ForkchoiceStateV1 "'w PayloadAttributes option"
  | RpcGetPayloadV3 PayloadID
  | EngineNotifyForkchoiceUpdate "'w ForkchoiceUpdateRequest"
  | EngineGetPayload GetPayloadRequest



text \<open>
  The engine client. Its transport methods (\<open>NewPayloadV3\<close>, \<open>ForkchoiceUpdatedV3\<close>,
  \<open>GetPayloadV3\<close>, promoted from the embedded Eth1 client) are outside the sources at
  hand and are parameters: a transport method answers from the trace so far, the context
  and its arguments, with a Go pair (value, error).
\<close>

record ('w, 'b) EngineClient =
  RPCTimeout :: int
  NewPayloadV3 :: "'w event list \<Rightarrow> deadline_ctx \<Rightarrow> ExecutionPayload \<Rightarrow> ExecutionHash list
                   \<Rightarrow> Root option \<Rightarrow> PayloadStatusV1 option \<times> error option"
  ForkchoiceUpdatedV3 :: "'w event list \<Rightarrow> deadline_ctx \<Rightarrow> ForkchoiceStateV1
                   \<Rightarrow> 'w PayloadAttributes option
                   \<Rightarrow> ForkchoiceResponseV1 option \<times> error option"
  GetPayloadV3 :: "'w event list \<Rightarrow> deadline_ctx \<Rightarrow> PayloadID
                   \<Rightarrow> 'b BuiltExecutionPayloadEnv option \<times> error option"

text \<open>
  Modelled from the spec: \<open>processPayloadStatusResult\<close>, the status classifier that
  \<open>NewPayload\<close> and \<open>ForkchoiceUpdated\<close> call, is not among the sources. Section 4.1 of
  the spec gives its contract \<open>classify(status, latestValidHash) -> (validHash, typedError)\<close>:
  Valid returns the latest valid hash and no error; Accepted returns the optional hash
  plus the accepted failure; Syncing returns the syncing failure, and by the scenario of
  section 8 the latest valid hash with it; Invalid returns the invalid failure carrying
  the validation-error text if present; any other status returns the undefined-status
  failure.
\<close>

definition processPayloadStatusResult ::
  "PayloadStatusV1 \<Rightarrow> ExecutionHash option \<times> error option" where
  "processPayloadStatusResult r =
     (case Status r of
        PayloadStatusValid \<Rightarrow> (LatestValidHash r, None)
      | PayloadStatusAccepted \<Rightarrow> (LatestValidHash r, Some ErrAcceptedPayloadStatus)
      | PayloadStatusSyncing \<Rightarrow> (LatestValidHash r, Some ErrSyncingPayloadStatus)
      | PayloadStatusInvalid \<Rightarrow>
          (LatestValidHash r, Some (ErrInvalidPayloadStatus (ValidationError r)))
      | PayloadStatusOther x \<Rightarrow> (None, Some ErrUnknownPayloadStatus))"

text \<open>
  Modelled from the spec: \<open>handleRPCError\<close>, through which \<open>ForkchoiceUpdated\<close> and
  \<open>GetPayload\<close> pass an error before they return it, is not among the sources. Section 7
  of the spec has a transport or RPC error "surfaced verbatim with peer-supplied detail
  preserved", and sections 6 and 8 have an unsupported fork version returned to the
  caller as the designated invalid-version error of the operation: the handler returns
  the error it is given.
\<close>

definition handleRPCError :: "error \<Rightarrow> error" where
  "handleRPCError err = err"

definition callNewPayloadRPC ::
  "versions \<Rightarrow> ('w, 'b) EngineClient \<Rightarrow> 'w event list \<Rightarrow> deadline_ctx \<Rightarrow> ExecutionPayload
   \<Rightarrow> ExecutionHash list \<Rightarrow> Root option
   \<Rightarrow> (PayloadStatusV1 option \<times> error option) \<times> 'w event list" where
  "callNewPayloadRPC v s tr ctx payload versionedHashes parentBeaconBlockRoot =
     (if Version payload = Deneb v then
        (NewPayloadV3 s tr ctx payload versionedHashes parentBeaconBlockRoot,
         tr @ [RpcNewPayloadV3 payload versionedHashes parentBeaconBlockRoot])
      else if Version payload = Electra v then
        ((None, Some (ErrorNew ''TODO: implement Electra payload'')), tr)
      else ((None, Some ErrInvalidPayloadType), tr))"

definition NewPayload ::
  "versions \<Rightarrow> ('w, 'b) EngineClient \<Rightarrow> 'w event list \<Rightarrow> Context \<Rightarrow> ExecutionPayload
   \<Rightarrow> ExecutionHash list \<Rightarrow> Root option
   \<Rightarrow> (ExecutionHash option \<times> error option) \<times> 'w event list" where
  "NewPayload v s tr ctx payload versionedHashes parentBeaconBlockRoot =
     (let dctx = WithTimeoutCause ctx (RPCTimeout s) ErrEngineAPITimeout;
          (res, tr1) = callNewPayloadRPC v s tr dctx payload versionedHashes
                         parentBeaconBlockRoot;
          (ret, tr2) =
            (case snd res of
               Some err \<Rightarrow>
                 ((None, Some err),
                  if errors_Is err ErrEngineAPITimeout
                  then tr1 @ [Metric ''incrementNewPayloadTimeout''] else tr1)
             | None \<Rightarrow>
                 (case fst res of
                    None \<Rightarrow> ((None, Some ErrNilPayloadStatus), tr1)
                  | Some result \<Rightarrow>
                      (processPayloadStatusResult result,
                       case ValidationError result of
                         Some validationErr \<Rightarrow>
                           tr1 @ [Log Error ''Got a validation error in newPayload'']
                       | None \<Rightarrow> tr1)))
      in (ret, tr2 @ [Metric ''measureNewPayloadDuration'']))"

definition callUpdatedForkchoiceRPC ::
  "versions \<Rightarrow> ('w, 'b) EngineClient \<Rightarrow> 'w event list \<Rightarrow> deadline_ctx \<Rightarrow> ForkchoiceStateV1
   \<Rightarrow> 'w PayloadAttributes option \<Rightarrow> 32 word
   \<Rightarrow> (ForkchoiceResponseV1 option \<times> error option) \<times> 'w event list" where
  "callUpdatedForkchoiceRPC v s tr ctx state attrs forkVersion =
     (if forkVersion = Deneb v then
        (ForkchoiceUpdatedV3 s tr ctx state attrs,
         tr @ [RpcForkchoiceUpdatedV3 state attrs])
      else if forkVersion = Electra v then
        ((None, Some (ErrorNew ''TODO: implement Electra hardfork'')), tr)
      else ((None, Some ErrInvalidPayloadAttributes), tr))"

text \<open>The warning \<open>ForkchoiceUpdated\<close> logs before it dispatches.\<close>

definition fee_recipient_warning :: "'w PayloadAttributes option \<Rightarrow> 'w event list" where
  "fee_recipient_warning attrs =
     (case attrs of
        Some a \<Rightarrow>
          if SuggestedFeeRecipient a = 0
          then [Log Warn ''suggested fee recipient is not configured''] else []
      | None \<Rightarrow> [])"

definition ForkchoiceUpdated ::
  "versions \<Rightarrow> ('w, 'b) EngineClient \<Rightarrow> 'w event list \<Rightarrow> Context \<Rightarrow> ForkchoiceStateV1
   \<Rightarrow> 'w PayloadAttributes option \<Rightarrow> 32 word
   \<Rightarrow> (PayloadID option \<times> ExecutionHash option \<times> error option) \<times> 'w event list" where
  "ForkchoiceUpdated v s tr ctx state attrs forkVersion =
     (let dctx = WithTimeoutCause ctx (RPCTimeout s) ErrEngineAPITimeout;
          tr0 = tr @ fee_recipient_warning attrs;
          (res, tr1) = callUpdatedForkchoiceRPC v s tr0 dctx state attrs forkVersion;
          (ret, tr2) =
            (case snd res of
               Some err \<Rightarrow>
                 ((None, None, Some (handleRPCError err)),
                  if errors_Is err ErrEngineAPITimeout
                  then tr1 @ [Metric ''incrementForkchoiceUpdateTimeout''] else tr1)
             | None \<Rightarrow>
                 (case fst res of
                    None \<Rightarrow> ((None, None, Some ErrNilForkchoiceResponse), tr1)
                  | Some result \<Rightarrow>
                      (case processPayloadStatusResult (PayloadStatus result) of
                         (latestValidHash, Some err) \<Rightarrow>
                           ((None, latestValidHash, Some err), tr1)
                       | (latestValidHash, None) \<Rightarrow>
                           ((PayloadID result, latestValidHash, None), tr1))))
      in (ret, tr2 @ [Metric ''measureForkchoiceUpdateDuration'']))"

definition GetPayload ::
  "versions \<Rightarrow> ('w, 'b) EngineClient \<Rightarrow> 'w event list \<Rightarrow> Context \<Rightarrow> PayloadID \<Rightarrow> 32 word
   \<Rightarrow> ('b BuiltExecutionPayloadEnv option \<times> error option) \<times> 'w event list" where
  "GetPayload v s tr ctx payloadID forkVersion =
     (let dctx = WithTimeoutCause ctx (RPCTimeout s) ErrEngineAPITimeout;
          (ret, tr2) =
            (if forkVersion = Deneb v then
               (let res = GetPayloadV3 s tr dctx payloadID;
                    tr1 = tr @ [RpcGetPayloadV3 payloadID]
                in case snd res of
                     Some err \<Rightarrow>
                       ((fst res, Some (handleRPCError err)),
                        if errors_Is err ErrEngineAPITimeout
                        then tr1 @ [Metric ''incrementGetPayloadTimeout''] else tr1)
                   | None \<Rightarrow>
                       (case fst res of
                          None \<Rightarrow> ((None, Some ErrNilExecutionPayloadEnvelope), tr1)
                        | Some result \<Rightarrow>
                            if GetBlobsBundle result = None \<and> Deneb v \<le> forkVersion
                            then ((Some result, Some ErrNilBlobsBundle), tr1)
                            else ((Some result, None), tr1)))
             else if forkVersion = Electra v then
               ((None, Some (ErrorNew ''TODO: implement Electra getPayload'')), tr)
             else ((None, Some ErrInvalidGetPayloadVersion), tr))
      in (ret, tr2 @ [Metric ''measureGetPayloadDuration'']))"

section \<open>Payload builder (builder package)\<close>

text \<open>
  The chain state is read through one method, \<open>GetLatestExecutionPayloadHeader\<close>, which
  returns a Go pair (header, error); the header is an interface value, modelled by what
  its two methods return.
\<close>

record ExecutionPayloadHeader =
  hdr_GetBlockHash :: ExecutionHash
  hdr_GetParentHash :: ExecutionHash

record BeaconState =
  GetLatestExecutionPayloadHeader :: "ExecutionPayloadHeader \<times> error option"

text \<open>
  The execution engine \<open>pb.ee\<close> is an interface whose implementation is outside the
  sources at hand: its two methods are parameters that answer from the trace so far, the
  context and the request. Each call of the builder to it is recorded in the trace.
\<close>

record ('w, 'b) ExecutionEngine =
  NotifyForkchoiceUpdate :: "'w event list \<Rightarrow> Context \<Rightarrow> 'w ForkchoiceUpdateRequest
                   \<Rightarrow> PayloadID option \<times> ExecutionHash option \<times> error option"
  ee_GetPayload :: "'w event list \<Rightarrow> Context \<Rightarrow> GetPayloadRequest
                   \<Rightarrow> 'b BuiltExecutionPayloadEnv option \<times> error option"

text \<open>
  Modelled from the spec: the payload cache \<open>pb.pc\<close>, whose \<open>Get\<close> and \<open>Set\<close> are not
  among the sources. Sections 2 and 3 of the spec make it a bounded mapping from
  (slot, parent-block-root) to a PayloadID with at most one entry per key, whose entries
  are only inserted or evicted; section 5 requires that a lookup after an insert for the
  same key observes it. The eviction rule is left open by the spec (section 9), so it is
  the parameter \<open>evicts\<close>: \<open>evicts slot slot'\<close> says that an insert at \<open>slot\<close> drops the
  entries held for \<open>slot'\<close>. \<open>pc_Get\<close> returns \<open>None\<close> where the Go lookup reports
  \<open>found = false\<close>.
\<close>

type_synonym PayloadIDCache = "Slot \<times> Root \<Rightarrow> PayloadID option"

definition pc_Get :: "PayloadIDCache \<Rightarrow> Slot \<Rightarrow> Root \<Rightarrow> PayloadID option" where
  "pc_Get c slot r = c (slot, r)"

definition pc_Set ::
  "(Slot \<Rightarrow> Slot \<Rightarrow> bool) \<Rightarrow> PayloadIDCache \<Rightarrow> Slot \<Rightarrow> Root \<Rightarrow> PayloadID \<Rightarrow> PayloadIDCache" where
  "pc_Set ev c slot r pid =
     (\<lambda>k. if k = (slot, r) then Some pid
          else if ev slot (fst k) then None
          else c k)"

text \<open>
  The builder: its configuration (\<open>Enabled\<close> is what \<open>pb.Enabled()\<close> answers), the
  chain spec's \<open>ActiveForkVersionForSlot\<close>, its own \<open>getPayloadAttribute\<close> (outside the
  sources at hand, a parameter returning a Go pair), the execution engine and the
  cache's eviction rule. What the builder mutates is the cache; with the trace it is the
  state threaded through every call.
\<close>

record ('w, 'b) PayloadBuilder =
  Enabled :: bool
  PayloadTimeout :: int
  cfg_SuggestedFeeRecipient :: ExecutionAddress
  ActiveForkVersionForSlot :: "Slot \<Rightarrow> 32 word"
  getPayloadAttribute :: "BeaconState \<Rightarrow> Slot \<Rightarrow> 64 word \<Rightarrow> Root
                   \<Rightarrow> 'w PayloadAttributes option \<times> error option"
  ee :: "('w, 'b) ExecutionEngine"
  evicts :: "Slot \<Rightarrow> Slot \<Rightarrow> bool"

record 'w builder_state =
  pc :: PayloadIDCache
  trace :: "'w event list"

definition emit :: "'w event list \<Rightarrow> 'w builder_state \<Rightarrow> 'w builder_state" where
  "emit evs s = s\<lparr> trace := trace s @ evs \<rparr>"

definition RequestPayloadAsync ::
  "('w, 'b) PayloadBuilder \<Rightarrow> 'w builder_state \<Rightarrow> Context \<Rightarrow> BeaconState \<Rightarrow> Slot \<Rightarrow> 64 word
   \<Rightarrow> Root \<Rightarrow> ExecutionHash \<Rightarrow> ExecutionHash
   \<Rightarrow> (PayloadID option \<times> error option) \<times> 'w builder_state" where
  "RequestPayloadAsync pb s ctx st slot timestamp parentBlockRoot
       headEth1BlockHash finalEth1BlockHash =
     (if \<not> Enabled pb then ((None, Some ErrPayloadBuilderDisabled), s)
      else
        let s1 = emit [CacheGet slot parentBlockRoot] s in
        case pc_Get (pc s) slot parentBlockRoot of
          Some payloadID \<Rightarrow>
            ((Some payloadID, None),
             emit [Log Warn ''aborting payload build; payload already exists in cache''] s1)
        | None \<Rightarrow>
            (case getPayloadAttribute pb st slot timestamp parentBlockRoot of
               (attrs, Some err) \<Rightarrow>
                 ((None, Some (ErrorNewf err '' error when getting payload attributes'')), s1)
             | (attrs, None) \<Rightarrow>
                (let req = \<lparr> State = \<lparr> HeadBlockHash = headEth1BlockHash,
                                       SafeBlockHash = finalEth1BlockHash,
                                       FinalizedBlockHash = finalEth1BlockHash \<rparr>,
                             PayloadAttributes = attrs,
                             ForkVersion = ActiveForkVersionForSlot pb slot \<rparr>;
                     res = NotifyForkchoiceUpdate (ee pb) (trace s1) ctx req;
                     s2 = emit [EngineNotifyForkchoiceUpdate req] s1
                 in case snd (snd res) of
                      Some err \<Rightarrow> ((None, Some err), s2)
                    | None \<Rightarrow>
                        (case fst res of
                           Some payloadID \<Rightarrow>
                             ((Some payloadID, None),
                              (emit [Log Info ''bob the builder; can we forkchoice update it?; bob the builder; yes we can'',
                                     CacheSet slot parentBlockRoot payloadID] s2)
                                \<lparr> pc := pc_Set (evicts pb) (pc s2) slot parentBlockRoot
                                          payloadID \<rparr>)
                         | None \<Rightarrow> ((None, None), s2)))))"

text \<open>
  The \<^verbatim>\<open>select\<close> of \<open>RequestPayloadSync\<close>. The timer of \<^verbatim>\<open>time.After(d)\<close> is
  created at the instant \<open>now\<close> and its channel can be received from \<open>now + d\<close> on;
  the channel \<^verbatim>\<open>ctx.Done()\<close> can be received from the instant the context is done.
  The select examines its channels \<open>lag\<close> later, at \<open>now + lag\<close>. If both channels
  can be received then, Go takes one of the two cases at random, which is the bit
  \<open>pick\<close>, however long one of them has been ready. If one can, its case is taken. If
  none can, the select blocks and the case of the channel that becomes ready first is
  taken, \<open>pick\<close> deciding when both become ready at the same instant.
\<close>

datatype select_case = TimerFired | CtxDone

definition select_settle :: "int \<Rightarrow> nat \<Rightarrow> int \<Rightarrow> Context \<Rightarrow> bool \<Rightarrow> select_case" where
  "select_settle now lag d ctx pick =
     (let timer_ready = now + d;
          poll = now + int lag
      in case done_at ctx of
           None \<Rightarrow> TimerFired
         | Some c \<Rightarrow>
             if c \<le> poll \<and> timer_ready \<le> poll then (if pick then CtxDone else TimerFired)
             else if c < timer_ready then CtxDone
             else if timer_ready < c then TimerFired
             else if pick then CtxDone else TimerFired)"

definition RequestPayloadSync ::
  "('w, 'b) PayloadBuilder \<Rightarrow> 'w builder_state \<Rightarrow> Context \<Rightarrow> BeaconState \<Rightarrow> Slot \<Rightarrow> 64 word
   \<Rightarrow> Root \<Rightarrow> ExecutionHash \<Rightarrow> ExecutionHash \<Rightarrow> int \<Rightarrow> nat \<Rightarrow> bool
   \<Rightarrow> ('b BuiltExecutionPayloadEnv option \<times> error option) \<times> 'w builder_state" where
  "RequestPayloadSync pb s ctx st slot timestamp parentBlockRoot
       parentEth1Hash finalBlockHash now lag pick =
     (if \<not> Enabled pb then ((None, Some ErrPayloadBuilderDisabled), s)
      else
        case RequestPayloadAsync pb s ctx st slot timestamp parentBlockRoot
               parentEth1Hash finalBlockHash of
          ((payloadID, Some err), s1) \<Rightarrow> ((None, Some err), s1)
        | ((None, None), s1) \<Rightarrow> ((None, Some ErrNilPayloadID), s1)
        | ((Some payloadID, None), s1) \<Rightarrow>
           (let s2 = emit [Log Info ''waiting for local payload to be delivered to execution client''] s1
            in case select_settle now lag (PayloadTimeout pb) ctx pick of
                 CtxDone \<Rightarrow> ((None, Some (ctx_Err ctx)), s2)
               | TimerFired \<Rightarrow>
                   let req = \<lparr> req_PayloadID = payloadID,
                               req_ForkVersion = ActiveForkVersionForSlot pb slot \<rparr>
                   in (ee_GetPayload (ee pb) (trace s2) ctx req,
                       emit [EngineGetPayload req] s2)))"

definition RetrievePayload ::
  "('w, 'b) PayloadBuilder \<Rightarrow> 'w builder_state \<Rightarrow> Context \<Rightarrow> Slot \<Rightarrow> Root
   \<Rightarrow> ('b BuiltExecutionPayloadEnv option \<times> error option) \<times> 'w builder_state" where
  "RetrievePayload pb s ctx slot parentBlockRoot =
     (if \<not> Enabled pb then ((None, Some ErrPayloadBuilderDisabled), s)
      else
        let s1 = emit [CacheGet slot parentBlockRoot] s in
        case pc_Get (pc s) slot parentBlockRoot of
          None \<Rightarrow> ((None, Some ErrPayloadIDNotFound), s1)
        | Some payloadID \<Rightarrow>
           (let req = \<lparr> req_PayloadID = payloadID,
                        req_ForkVersion = ActiveForkVersionForSlot pb slot \<rparr>;
                res = ee_GetPayload (ee pb) (trace s1) ctx req;
                s2 = emit [EngineGetPayload req] s1
            in case snd res of
                 Some err \<Rightarrow> ((None, Some err), s2)
               | None \<Rightarrow>
                   (case fst res of
                      None \<Rightarrow> ((None, Some ErrNilPayloadEnvelope), s2)
                    | Some envelope \<Rightarrow>
                        let s3 = emit [Log Info ''payload retrieved from local builder''] s2;
                            payload = GetExecutionPayload envelope
                        in ((Some envelope, None),
                            if GetFeeRecipient payload \<noteq> cfg_SuggestedFeeRecipient pb
                            then emit [Log Warn ''payload fee recipient does not match suggested fee recipient - please check both your CL and EL configuration''] s3
                            else s3))))"

definition SendForceHeadFCU ::
  "('w, 'b) PayloadBuilder \<Rightarrow> 'w builder_state \<Rightarrow> Context \<Rightarrow> BeaconState \<Rightarrow> Slot
   \<Rightarrow> error option \<times> 'w builder_state" where
  "SendForceHeadFCU pb s ctx st slot =
     (case GetLatestExecutionPayloadHeader st of
        (lph, Some err) \<Rightarrow> (Some err, s)
      | (lph, None) \<Rightarrow>
          let s1 = emit [Log Info ''sending startup forkchoice update to execution client''] s;
              req = \<lparr> State = \<lparr> HeadBlockHash = hdr_GetBlockHash lph,
                                SafeBlockHash = hdr_GetParentHash lph,
                                FinalizedBlockHash = hdr_GetParentHash lph \<rparr>,
                      PayloadAttributes = None,
                      ForkVersion = ActiveForkVersionForSlot pb slot \<rparr>;
              res = NotifyForkchoiceUpdate (ee pb) (trace s1) ctx req
          in (snd (snd res), emit [EngineNotifyForkchoiceUpdate req] s1))"

text \<open>The calls to the execution engine that a trace holds.\<close>

fun is_engine_call :: "'w event \<Rightarrow> bool" where
  "is_engine_call (EngineNotifyForkchoiceUpdate r) = True"
| "is_engine_call (EngineGetPayload r) = True"
| "is_engine_call e = False"

definition engine_calls :: "'w event list \<Rightarrow> 'w event list" where
  "engine_calls tr = filter is_engine_call tr"

text \<open>
  Values used where a theorem is run on a concrete input: the fork order
  Capella = 3, Deneb = 4, Electra = 5.
\<close>

definition example_versions :: versions where
  "example_versions = \<lparr> Capella = 3, Deneb = 4, Electra = 5 \<rparr>"

definition example_ctx :: Context where
  "example_ctx = \<lparr> done_at = None, ctx_Err = ContextCanceled \<rparr>"

definition example_payload :: "32 word \<Rightarrow> ExecutionPayload" where
  "example_payload fv =
     \<lparr> Version = fv, IsNil = False, GetBlockHash = 2, GetParentHash = 1,
       GetFeeRecipient = 0 \<rparr>"

definition example_envelope :: "nat option \<Rightarrow> nat BuiltExecutionPayloadEnv" where
  "example_envelope bundle =
     \<lparr> GetExecutionPayload = example_payload 4, GetBlobsBundle = bundle,
       ShouldOverrideBuilder = False \<rparr>"

definition syncing_status :: PayloadStatusV1 where
  "syncing_status =
     \<lparr> Status = PayloadStatusSyncing, LatestValidHash = Some 7, ValidationError = None \<rparr>"

text \<open>
  A peer that answers every new-payload and forkchoice-update call with status Syncing
  and latest valid hash 7, and every get-payload call with an envelope whose blob bundle
  is the given one.
\<close>

definition example_client :: "nat option \<Rightarrow> (nat, nat) EngineClient" where
  "example_client bundle =
     \<lparr> RPCTimeout = 1000,
       NewPayloadV3 = (\<lambda>tr ctx p vh r. (Some syncing_status, None)),
       ForkchoiceUpdatedV3 = (\<lambda>tr ctx st a.
          (Some \<lparr> PayloadStatus = syncing_status, PayloadID = Some 1 \<rparr>, None)),
       GetPayloadV3 = (\<lambda>tr ctx i. (Some (example_envelope bundle), None)) \<rparr>"

definition example_engine :: "(nat, nat) ExecutionEngine" where
  "example_engine =
     \<lparr> NotifyForkchoiceUpdate = (\<lambda>tr ctx req. (Some 1, None, None)),
       ee_GetPayload = (\<lambda>tr ctx req. (Some (example_envelope (Some 0)), None)) \<rparr>"

definition example_builder :: "(nat, nat) PayloadBuilder" where
  "example_builder =
     \<lparr> Enabled = True,
       PayloadTimeout = 850,
       cfg_SuggestedFeeRecipient = 0,
       ActiveForkVersionForSlot = (\<lambda>slot. 4),
       getPayloadAttribute = (\<lambda>st slot ts r.
          NewPayloadAttributes example_versions 4 ts 9 0 (Some []) r),
       ee = example_engine,
       evicts = (\<lambda>slot slot'. slot' < slot) \<rparr>"

definition example_chain_state :: BeaconState where
  "example_chain_state =
     \<lparr> GetLatestExecutionPayloadHeader =
         (\<lparr> hdr_GetBlockHash = 2, hdr_GetParentHash = 1 \<rparr>, None) \<rparr>"

definition empty_state :: "nat builder_state" where
  "empty_state = \<lparr> pc = (\<lambda>k. None), trace = [] \<rparr>"

definition cancelled_ctx :: Context where
  "cancelled_ctx = \<lparr> done_at = Some 100, ctx_Err = ContextCanceled \<rparr>"

text \<open>A context cancelled at instant 50 and a builder whose settle duration is 1.\<close>

definition early_cancelled_ctx :: Context where
  "early_cancelled_ctx = \<lparr> done_at = Some 50, ctx_Err = ContextCanceled \<rparr>"

definition short_settle_builder :: "(nat, nat) PayloadBuilder" where
  "short_settle_builder = example_builder\<lparr> PayloadTimeout := 1 \<rparr>"

text \<open>The events a call appended: the trace of the state after it, less that before it.\<close>

definition new_events :: "'w builder_state \<Rightarrow> 'w builder_state \<Rightarrow> 'w event list" where
  "new_events s s' = drop (length (trace s)) (trace s')"

section \<open>Theorems\<close>

subsection \<open>Payload attributes\<close>

text \<open>
  C8, as the spec states it, fails: with timestamp 1, prev-randao 1 and fork version 2
  (before Capella = 3) an attributes value that carries a withdrawal list, here the empty
  non-nil one, is accepted by \<open>NewPayloadAttributes\<close>, although "withdrawals present iff
  fork version at or after Capella" is false for it.
\<close>

theorem C8_pre_capella_withdrawals_accepted:
  "snd (NewPayloadAttributes example_versions 2 1 1 0 (Some ([] :: nat list)) 0) = None
   \<and> \<not> ((1 :: 64 word) \<noteq> 0 \<and> (1 :: Bytes32) \<noteq> 0
          \<and> ((Some ([] :: nat list) \<noteq> None) \<longleftrightarrow> Capella example_versions \<le> (2 :: 32 word)))"
  by (simp add: NewPayloadAttributes_def Validate_def example_versions_def)

text \<open>
  C8, amended: \<open>NewPayloadAttributes\<close> (through \<open>Validate\<close>) returns without error, and
  then returns the attributes it was given, exactly when the timestamp is non-zero, the
  prev-randao is not the zero value, and the withdrawal list is present whenever the fork
  version is at or after Capella. Nothing is required of the withdrawal list before
  Capella.
\<close>

theorem C8_validate_iff:
  "(snd (NewPayloadAttributes v fv ts pr fr ws pbr) = None
      \<longleftrightarrow> ts \<noteq> 0 \<and> pr \<noteq> 0 \<and> (Capella v \<le> fv \<longrightarrow> ws \<noteq> None))
   \<and> (snd (NewPayloadAttributes v fv ts pr fr ws pbr) = None
      \<longrightarrow> fst (NewPayloadAttributes v fv ts pr fr ws pbr)
          = Some \<lparr> version = fv, Timestamp = ts, PrevRandao = pr,
                   SuggestedFeeRecipient = fr, Withdrawals = ws,
                   ParentBeaconBlockRoot = pbr \<rparr>)
   \<and> (snd (NewPayloadAttributes v fv ts pr fr ws pbr) = None
      \<longleftrightarrow> Validate v \<lparr> version = fv, Timestamp = ts, PrevRandao = pr,
                   SuggestedFeeRecipient = fr, Withdrawals = ws,
                   ParentBeaconBlockRoot = pbr \<rparr> = None)"
  by (auto simp: NewPayloadAttributes_def Validate_def Let_def split: option.splits)

theorem C8_validate_iff_witness:
  "Capella example_versions \<le> (4 :: 32 word)
   \<and> snd (NewPayloadAttributes example_versions 4 7 9 0 (Some [1 :: nat]) 0) = None
   \<and> snd (NewPayloadAttributes example_versions 4 7 9 0 (None :: nat list option) 0)
       = Some ErrNilWithdrawals"
  using C8_validate_iff [of example_versions 4 7 9 0 "Some [1 :: nat]" 0]
  by (simp add: NewPayloadAttributes_def Validate_def example_versions_def)

subsection \<open>Auxiliary facts\<close>

lemma errors_Is_sentinel [simp]:
  "errors_Is ErrInvalidPayloadType ErrEngineAPITimeout = False"
  "errors_Is ErrInvalidPayloadAttributes ErrEngineAPITimeout = False"
  "errors_Is (ErrorNew m) ErrEngineAPITimeout = False"
  by simp_all

lemma pc_Get_Set: "pc_Get (pc_Set ev c slot r pid) slot r = Some pid"
  by (simp add: pc_Get_def pc_Set_def)

text \<open>
  The wait of \<open>RequestPayloadSync\<close> ends on the context whenever the context is done
  strictly before the timer elapses and the timer has not elapsed when the select
  examines its channels.
\<close>

lemma select_settle_ctx_first:
  assumes "done_at ctx = Some c" and "c < now + d" and "int lag < d"
  shows "select_settle now lag d ctx pick = CtxDone"
  using assms by (simp add: select_settle_def Let_def)

lemma RequestPayloadAsync_trace:
  "\<exists>evs. trace (snd (RequestPayloadAsync pb s ctx st slot ts r h f)) = trace s @ evs
         \<and> (\<forall>req. EngineGetPayload req \<notin> set evs)"
  by (auto simp: RequestPayloadAsync_def emit_def Let_def split: option.splits prod.splits)

subsection \<open>Payload builder\<close>

text \<open>
  C1 (dedup idempotence of the asynchronous build request): if \<open>RequestPayloadAsync\<close>
  returns a non-nil PayloadID and no error for the key (slot, parentBlockRoot), then a
  second \<open>RequestPayloadAsync\<close> for the same key, in the state the first one left and
  whatever its other arguments, returns the same PayloadID, only looks the key up and
  logs, makes no further call to the execution engine and leaves the cache as it is.
\<close>

theorem C1_dedup:
  assumes "RequestPayloadAsync pb s ctx st slot ts r h f = ((Some pid, None), s')"
  shows "RequestPayloadAsync pb s' ctx' st' slot ts' r h' f'
           = ((Some pid, None),
              emit [CacheGet slot r,
                    Log Warn ''aborting payload build; payload already exists in cache''] s')
         \<and> engine_calls (trace (snd (RequestPayloadAsync pb s' ctx' st' slot ts' r h' f')))
             = engine_calls (trace s')
         \<and> pc (snd (RequestPayloadAsync pb s' ctx' st' slot ts' r h' f')) = pc s'"
proof -
  from assms have en: "Enabled pb"
    by (auto simp: RequestPayloadAsync_def split: if_splits)
  from assms have hit: "pc_Get (pc s') slot r = Some pid"
    by (auto simp: RequestPayloadAsync_def Let_def emit_def pc_Get_Set
             split: if_splits option.splits prod.splits)
  show ?thesis using en hit
    by (simp add: RequestPayloadAsync_def Let_def emit_def engine_calls_def)
qed

text \<open>
  Witness of C1, the scenario of the spec: slot 100, parent root 0xAA, empty cache, the
  engine answers PayloadID 1; the second call returns 1 and the engine calls stay those
  of the first.
\<close>

theorem C1_dedup_witness:
  "fst (RequestPayloadAsync example_builder empty_state example_ctx example_chain_state
          100 1 170 5 6) = (Some 1, None)
   \<and> fst (RequestPayloadAsync example_builder
            (snd (RequestPayloadAsync example_builder empty_state example_ctx
                    example_chain_state 100 1 170 5 6))
            example_ctx example_chain_state 100 1 170 5 6) = (Some 1, None)
   \<and> engine_calls (trace (snd (RequestPayloadAsync example_builder
            (snd (RequestPayloadAsync example_builder empty_state example_ctx
                    example_chain_state 100 1 170 5 6))
            example_ctx example_chain_state 100 1 170 5 6)))
       = engine_calls (trace (snd (RequestPayloadAsync example_builder empty_state
            example_ctx example_chain_state 100 1 170 5 6)))"
proof -
  have first: "fst (RequestPayloadAsync example_builder empty_state example_ctx
          example_chain_state 100 1 170 5 6) = (Some 1, None)"
    by (simp add: RequestPayloadAsync_def example_builder_def empty_state_def
        example_engine_def pc_Get_def NewPayloadAttributes_def Validate_def
        example_versions_def Let_def)
  then have h: "RequestPayloadAsync example_builder empty_state example_ctx
          example_chain_state 100 1 170 5 6
        = ((Some 1, None), snd (RequestPayloadAsync example_builder empty_state example_ctx
          example_chain_state 100 1 170 5 6))"
    by (simp add: prod_eq_iff)
  note d = C1_dedup [OF h, of example_ctx example_chain_state 1 5 6]
  from d have second: "fst (RequestPayloadAsync example_builder
            (snd (RequestPayloadAsync example_builder empty_state example_ctx
                    example_chain_state 100 1 170 5 6))
            example_ctx example_chain_state 100 1 170 5 6) = (Some 1, None)"
    by simp
  from first second d show ?thesis by blast
qed

text \<open>
  C2, as the spec states it, fails: for a chain state whose latest execution payload
  header has block hash 2 and parent hash 1, \<open>SendForceHeadFCU\<close> sends a forkchoice
  state with head 2 but safe and finalized 1, the header's parent hash, not its block
  hash.
\<close>

theorem C2_safe_and_finalized_are_parent_hash:
  "trace (snd (SendForceHeadFCU example_builder empty_state example_ctx
                 example_chain_state 100))
     = [Log Info ''sending startup forkchoice update to execution client'',
        EngineNotifyForkchoiceUpdate
          \<lparr> State = \<lparr> HeadBlockHash = 2, SafeBlockHash = 1, FinalizedBlockHash = 1 \<rparr>,
            PayloadAttributes = None, ForkVersion = 4 \<rparr>]
   \<and> GetLatestExecutionPayloadHeader example_chain_state
       = (\<lparr> hdr_GetBlockHash = 2, hdr_GetParentHash = 1 \<rparr>, None)
   \<and> (1 :: ExecutionHash) \<noteq> 2"
  by (simp add: SendForceHeadFCU_def example_builder_def empty_state_def
      example_chain_state_def example_engine_def emit_def Let_def)

text \<open>
  C2, amended: for every state in which reading the latest execution payload header
  succeeds, \<open>SendForceHeadFCU\<close> logs and issues exactly one forkchoice update, whose head
  hash is the header's block hash, whose safe hash and finalized hash are both the
  header's parent hash, and which carries no payload attributes; the cache is untouched.
\<close>

theorem C2_force_head:
  assumes "GetLatestExecutionPayloadHeader st = (lph, None)"
  shows "new_events s (snd (SendForceHeadFCU pb s ctx st slot))
           = [Log Info ''sending startup forkchoice update to execution client'',
              EngineNotifyForkchoiceUpdate
                \<lparr> State = \<lparr> HeadBlockHash = hdr_GetBlockHash lph,
                             SafeBlockHash = hdr_GetParentHash lph,
                             FinalizedBlockHash = hdr_GetParentHash lph \<rparr>,
                  PayloadAttributes = None,
                  ForkVersion = ActiveForkVersionForSlot pb slot \<rparr>]
         \<and> pc (snd (SendForceHeadFCU pb s ctx st slot)) = pc s"
  using assms by (simp add: SendForceHeadFCU_def emit_def Let_def new_events_def)

theorem C2_force_head_witness:
  "GetLatestExecutionPayloadHeader example_chain_state
       = (\<lparr> hdr_GetBlockHash = 2, hdr_GetParentHash = 1 \<rparr>, None)
   \<and> new_events empty_state (snd (SendForceHeadFCU example_builder empty_state example_ctx
                 example_chain_state 100))
     = [Log Info ''sending startup forkchoice update to execution client'',
        EngineNotifyForkchoiceUpdate
          \<lparr> State = \<lparr> HeadBlockHash = 2, SafeBlockHash = 1, FinalizedBlockHash = 1 \<rparr>,
            PayloadAttributes = None, ForkVersion = 4 \<rparr>]"
proof -
  have h: "GetLatestExecutionPayloadHeader example_chain_state
       = (\<lparr> hdr_GetBlockHash = 2, hdr_GetParentHash = 1 \<rparr>, None)"
    by (simp add: example_chain_state_def)
  from C2_force_head [OF h, of empty_state example_builder example_ctx 100] h
  show ?thesis by (simp add: example_builder_def)
qed

text \<open>
  C5, as the spec states it, fails: with a settle duration of 1, a wait that begins at
  instant 50 and a context cancelled at instant 50, the cancellation fires strictly
  before the timer elapses (at 51); but when the select examines its channels at 51 both
  can be received, and when Go takes the timer case \<open>RequestPayloadSync\<close> calls
  \<open>GetPayload\<close> and returns the envelope, not the cancellation error.
\<close>

theorem C5_timer_case_taken_after_cancellation:
  "done_at early_cancelled_ctx = Some 50
   \<and> (50 :: int) < 50 + PayloadTimeout short_settle_builder
   \<and> fst (RequestPayloadAsync short_settle_builder empty_state early_cancelled_ctx
            example_chain_state 100 1 170 5 6) = (Some 1, None)
   \<and> fst (RequestPayloadSync short_settle_builder empty_state early_cancelled_ctx
            example_chain_state 100 1 170 5 6 50 1 False)
       = (Some (example_envelope (Some 0)), None)
   \<and> EngineGetPayload \<lparr> req_PayloadID = 1, req_ForkVersion = 4 \<rparr>
       \<in> set (trace (snd (RequestPayloadSync short_settle_builder empty_state
                  early_cancelled_ctx example_chain_state 100 1 170 5 6 50 1 False)))"
  by (simp add: RequestPayloadSync_def RequestPayloadAsync_def short_settle_builder_def
      example_builder_def empty_state_def example_engine_def early_cancelled_ctx_def
      pc_Get_def NewPayloadAttributes_def Validate_def example_versions_def
      select_settle_def emit_def Let_def)

text \<open>
  C5, amended: when \<open>RequestPayloadAsync\<close> has returned a non-nil PayloadID, the caller's
  context is done at an instant \<open>c\<close> strictly before the settle timer elapses
  (\<open>c < now + PayloadTimeout\<close>) and the timer has not elapsed when the select examines
  its channels (\<open>lag < PayloadTimeout\<close>), \<open>RequestPayloadSync\<close> returns the context's
  error and no envelope, and the whole call makes no \<open>GetPayload\<close> call to the
  execution engine. Nothing is promised when the timer has already elapsed by then.
\<close>

theorem C5_cancellation_first:
  assumes async: "RequestPayloadAsync pb s ctx st slot ts r h f = ((Some pid, None), s1)"
      and fired: "done_at ctx = Some c"
      and before: "c < now + PayloadTimeout pb"
      and pending: "int lag < PayloadTimeout pb"
  shows "RequestPayloadSync pb s ctx st slot ts r h f now lag pick
           = ((None, Some (ctx_Err ctx)),
              emit [Log Info ''waiting for local payload to be delivered to execution client''] s1)
       \<and> (\<forall>req. EngineGetPayload req
              \<notin> set (new_events s
                       (snd (RequestPayloadSync pb s ctx st slot ts r h f now lag pick))))"
proof -
  from async have en: "Enabled pb"
    by (auto simp: RequestPayloadAsync_def split: if_splits)
  have sel: "select_settle now lag (PayloadTimeout pb) ctx pick = CtxDone"
    by (rule select_settle_ctx_first [OF fired before pending])
  have res: "RequestPayloadSync pb s ctx st slot ts r h f now lag pick
           = ((None, Some (ctx_Err ctx)),
              emit [Log Info ''waiting for local payload to be delivered to execution client''] s1)"
    using en async sel by (simp add: RequestPayloadSync_def Let_def)
  from RequestPayloadAsync_trace [of pb s ctx st slot ts r h f] async
  obtain evs where evs: "trace s1 = trace s @ evs" "\<forall>req. EngineGetPayload req \<notin> set evs"
    by auto
  have "\<forall>req. EngineGetPayload req
              \<notin> set (new_events s
                       (snd (RequestPayloadSync pb s ctx st slot ts r h f now lag pick)))"
    using evs by (simp add: res new_events_def emit_def)
  with res show ?thesis by blast
qed

text \<open>
  Witness of the amended C5: the wait begins at instant 50 with a settle duration of 850,
  the select examines its channels 1 later, the context is cancelled at instant 100, and
  the random bit is set against the context.
\<close>

theorem C5_cancellation_first_witness:
  "done_at cancelled_ctx = Some 100
   \<and> 100 < 50 + PayloadTimeout example_builder
   \<and> int 1 < PayloadTimeout example_builder
   \<and> fst (RequestPayloadAsync example_builder empty_state cancelled_ctx example_chain_state
            100 1 170 5 6) = (Some 1, None)
   \<and> fst (RequestPayloadSync example_builder empty_state cancelled_ctx example_chain_state
            100 1 170 5 6 50 1 False) = (None, Some ContextCanceled)"
proof -
  have a: "fst (RequestPayloadAsync example_builder empty_state cancelled_ctx
            example_chain_state 100 1 170 5 6) = (Some 1, None)"
    by (simp add: RequestPayloadAsync_def example_builder_def empty_state_def
        example_engine_def pc_Get_def NewPayloadAttributes_def Validate_def
        example_versions_def Let_def)
  then have h: "RequestPayloadAsync example_builder empty_state cancelled_ctx
          example_chain_state 100 1 170 5 6
        = ((Some 1, None), snd (RequestPayloadAsync example_builder empty_state cancelled_ctx
          example_chain_state 100 1 170 5 6))"
    by (simp add: prod_eq_iff)
  have d: "done_at cancelled_ctx = Some 100" by (simp add: cancelled_ctx_def)
  have t: "100 < 50 + PayloadTimeout example_builder" by (simp add: example_builder_def)
  have l: "int 1 < PayloadTimeout example_builder" by (simp add: example_builder_def)
  from C5_cancellation_first [OF h d t l, of False]
  have "fst (RequestPayloadSync example_builder empty_state cancelled_ctx example_chain_state
            100 1 170 5 6 50 1 False) = (None, Some ContextCanceled)"
    by (simp add: cancelled_ctx_def)
  with a d t l show ?thesis by blast
qed

text \<open>
  C6 (disabled-builder precondition): if the payload builder is disabled, then
  \<open>RequestPayloadAsync\<close>, \<open>RequestPayloadSync\<close> and \<open>RetrievePayload\<close> each return the
  builder-disabled error and no value, and leave the state as it was: nothing is
  appended to the trace, so there is no cache access and no call to the execution
  engine, and the cache is unchanged.
\<close>

theorem C6_disabled:
  assumes "\<not> Enabled pb"
  shows "RequestPayloadAsync pb s ctx st slot ts r h f
           = ((None, Some ErrPayloadBuilderDisabled), s)
       \<and> RequestPayloadSync pb s ctx st slot ts r h f now lag pick
           = ((None, Some ErrPayloadBuilderDisabled), s)
       \<and> RetrievePayload pb s ctx slot r
           = ((None, Some ErrPayloadBuilderDisabled), s)"
  using assms
  by (simp add: RequestPayloadAsync_def RequestPayloadSync_def RetrievePayload_def)

theorem C6_disabled_witness:
  "\<not> Enabled (example_builder\<lparr> Enabled := False \<rparr>)
   \<and> RequestPayloadAsync (example_builder\<lparr> Enabled := False \<rparr>) empty_state example_ctx
        example_chain_state 100 1 170 5 6
        = ((None, Some ErrPayloadBuilderDisabled), empty_state)
   \<and> RequestPayloadSync (example_builder\<lparr> Enabled := False \<rparr>) empty_state example_ctx
        example_chain_state 100 1 170 5 6 0 0 True
        = ((None, Some ErrPayloadBuilderDisabled), empty_state)
   \<and> RetrievePayload (example_builder\<lparr> Enabled := False \<rparr>) empty_state example_ctx 100 170
        = ((None, Some ErrPayloadBuilderDisabled), empty_state)"
proof -
  have h: "\<not> Enabled (example_builder\<lparr> Enabled := False \<rparr>)" by simp
  from C6_disabled [OF h] h show ?thesis by simp
qed

text \<open>
  C7 (cache miss of payload retrieval): for every key (slot, parentBlockRoot) that the
  cache does not hold, \<open>RetrievePayload\<close> of an enabled builder returns the
  payload-ID-not-found error after the one cache lookup; and, enabled or not, it returns
  no envelope, makes no call to the execution engine (so triggers no build) and leaves
  the cache unchanged.
\<close>

theorem C7_cache_miss:
  assumes "pc_Get (pc s) slot r = None"
  shows "(Enabled pb \<longrightarrow>
            RetrievePayload pb s ctx slot r
              = ((None, Some ErrPayloadIDNotFound), emit [CacheGet slot r] s))
       \<and> fst (fst (RetrievePayload pb s ctx slot r)) = None
       \<and> engine_calls (trace (snd (RetrievePayload pb s ctx slot r)))
           = engine_calls (trace s)
       \<and> pc (snd (RetrievePayload pb s ctx slot r)) = pc s"
  using assms
  by (simp add: RetrievePayload_def emit_def engine_calls_def Let_def)

theorem C7_cache_miss_witness:
  "pc_Get (pc empty_state) 100 170 = None
   \<and> Enabled example_builder
   \<and> RetrievePayload example_builder empty_state example_ctx 100 170
       = ((None, Some ErrPayloadIDNotFound), emit [CacheGet 100 170] empty_state)
   \<and> engine_calls (trace (snd (RetrievePayload example_builder empty_state example_ctx
                                  100 170))) = []"
proof -
  have h: "pc_Get (pc empty_state) 100 170 = None"
    by (simp add: pc_Get_def empty_state_def)
  have e: "Enabled example_builder" by (simp add: example_builder_def)
  from C7_cache_miss [OF h, of example_builder example_ctx] h e
  show ?thesis by (simp add: empty_state_def engine_calls_def emit_def)
qed

text \<open>
  C10 (forkchoice state of the asynchronous build request): every forkchoice update
  that a \<open>RequestPayloadAsync\<close> call sends to the execution engine has head hash
  \<open>headEth1BlockHash\<close> and both safe hash and finalized hash \<open>finalEth1BlockHash\<close>; the
  safe hash sent always equals the finalized hash sent.
\<close>

theorem C10_forkchoice_state:
  "\<forall>req. EngineNotifyForkchoiceUpdate req
           \<in> set (new_events s (snd (RequestPayloadAsync pb s ctx st slot ts r h f)))
     \<longrightarrow> State req = \<lparr> HeadBlockHash = h, SafeBlockHash = f, FinalizedBlockHash = f \<rparr>
         \<and> SafeBlockHash (State req) = FinalizedBlockHash (State req)"
  by (auto simp: RequestPayloadAsync_def emit_def Let_def new_events_def
           split: option.splits prod.splits)

theorem C10_forkchoice_state_witness:
  "(\<exists>req. EngineNotifyForkchoiceUpdate req
           \<in> set (new_events empty_state (snd (RequestPayloadAsync example_builder
                 empty_state example_ctx example_chain_state 100 1 170 5 6)))
        \<and> State req = \<lparr> HeadBlockHash = 5, SafeBlockHash = 6, FinalizedBlockHash = 6 \<rparr>)"
proof -
  let ?req = "\<lparr> State = \<lparr> HeadBlockHash = 5, SafeBlockHash = 6, FinalizedBlockHash = 6 \<rparr>,
            PayloadAttributes = Some \<lparr> version = 4, Timestamp = 1, PrevRandao = 9,
               SuggestedFeeRecipient = 0, Withdrawals = Some [],
               ParentBeaconBlockRoot = 170 \<rparr>,
            ForkVersion = 4 \<rparr> :: nat ForkchoiceUpdateRequest"
  have m: "EngineNotifyForkchoiceUpdate ?req
       \<in> set (new_events empty_state (snd (RequestPayloadAsync example_builder
                 empty_state example_ctx example_chain_state 100 1 170 5 6)))"
    by (simp add: RequestPayloadAsync_def example_builder_def empty_state_def
        example_engine_def pc_Get_def NewPayloadAttributes_def Validate_def
        example_versions_def Let_def emit_def new_events_def)
  from C10_forkchoice_state [of empty_state example_builder example_ctx
       example_chain_state 100 1 170 5 6] m
  have "State ?req = \<lparr> HeadBlockHash = 5, SafeBlockHash = 6, FinalizedBlockHash = 6 \<rparr>"
    by blast
  with m show ?thesis by blast
qed

subsection \<open>Engine client\<close>




text \<open>
  C4 (protocol violations of \<open>GetPayload\<close>): when the fork version is the dispatched one
  (Deneb) and the transport returns without error, \<open>GetPayload\<close> fails with the
  nil-envelope error if the envelope is nil, fails with the nil-blob-bundle error if the
  envelope's blob bundle is nil and the fork version is Deneb or later, and otherwise
  returns the envelope without error.
\<close>

theorem C4_get_payload_violations:
  assumes "fv = Deneb v"
      and "GetPayloadV3 s tr (WithTimeoutCause ctx (RPCTimeout s) ErrEngineAPITimeout) pid
             = (result, None)"
  shows "(result = None \<longrightarrow>
            fst (GetPayload v s tr ctx pid fv) = (None, Some ErrNilExecutionPayloadEnvelope))
       \<and> (\<forall>env. result = Some env \<and> GetBlobsBundle env = None \<and> Deneb v \<le> fv \<longrightarrow>
            fst (GetPayload v s tr ctx pid fv) = (Some env, Some ErrNilBlobsBundle))
       \<and> (\<forall>env. result = Some env \<and> GetBlobsBundle env \<noteq> None \<longrightarrow>
            fst (GetPayload v s tr ctx pid fv) = (Some env, None))"
  using assms by (auto simp: GetPayload_def Let_def)

text \<open>
  Witness of C4: at fork version Deneb an envelope without blob bundle gives the
  nil-blob-bundle error (the scenario of the spec), an envelope with one is returned,
  and a nil envelope gives the nil-envelope error.
\<close>

theorem C4_get_payload_violations_witness:
  "(4 :: 32 word) = Deneb example_versions
   \<and> fst (GetPayload example_versions (example_client None) [] example_ctx 1 4)
       = (Some (example_envelope None), Some ErrNilBlobsBundle)
   \<and> fst (GetPayload example_versions (example_client (Some 0)) [] example_ctx 1 4)
       = (Some (example_envelope (Some 0)), None)
   \<and> fst (GetPayload example_versions
            ((example_client None)\<lparr> GetPayloadV3 := (\<lambda>tr ctx i. (None, None)) \<rparr>)
            [] example_ctx 1 4)
       = (None, Some ErrNilExecutionPayloadEnvelope)"
proof -
  have d: "(4 :: 32 word) = Deneb example_versions" by (simp add: example_versions_def)
  have t1: "GetPayloadV3 (example_client None) []
              (WithTimeoutCause example_ctx (RPCTimeout (example_client None))
                 ErrEngineAPITimeout) 1 = (Some (example_envelope None), None)"
    by (simp add: example_client_def)
  have t2: "GetPayloadV3 (example_client (Some 0)) []
              (WithTimeoutCause example_ctx (RPCTimeout (example_client (Some 0)))
                 ErrEngineAPITimeout) 1 = (Some (example_envelope (Some 0)), None)"
    by (simp add: example_client_def)
  have t3: "GetPayloadV3 ((example_client None)\<lparr> GetPayloadV3 := (\<lambda>tr ctx i. (None, None)) \<rparr>) []
              (WithTimeoutCause example_ctx
                 (RPCTimeout ((example_client None)\<lparr> GetPayloadV3 := (\<lambda>tr ctx i. (None, None)) \<rparr>))
                 ErrEngineAPITimeout) 1 = (None, None)"
    by simp
  from C4_get_payload_violations [OF d t1] C4_get_payload_violations [OF d t2]
       C4_get_payload_violations [OF d t3] d
  show ?thesis by (simp add: example_envelope_def)
qed

text \<open>
  C9 (soft failures still carry the hash): when the peer answers a new-payload call with
  status Syncing and a latest valid hash, \<open>NewPayload\<close> returns that hash together with
  the syncing error, as it returns for every status the pair the classifier gives; and
  when the classifier reports an error for the status of a forkchoice response,
  \<open>ForkchoiceUpdated\<close> returns the classifier's latest valid hash together with that
  error (and no PayloadID), which for status Syncing is the hash of the response and the
  syncing error.
\<close>

theorem C9_soft_failure_carries_hash:
  "(Version payload = Deneb v
      \<and> NewPayloadV3 s tr (WithTimeoutCause ctx (RPCTimeout s) ErrEngineAPITimeout)
            payload vh pbr = (Some r, None)
      \<and> Status r = PayloadStatusSyncing \<and> LatestValidHash r = Some h
    \<longrightarrow> fst (NewPayload v s tr ctx payload vh pbr) = (Some h, Some ErrSyncingPayloadStatus))
   \<and> (Version payload = Deneb v
      \<and> NewPayloadV3 s tr (WithTimeoutCause ctx (RPCTimeout s) ErrEngineAPITimeout)
            payload vh pbr = (Some r, None)
    \<longrightarrow> fst (NewPayload v s tr ctx payload vh pbr) = processPayloadStatusResult r)
   \<and> (fv = Deneb v
      \<and> ForkchoiceUpdatedV3 s (tr @ fee_recipient_warning attrs)
            (WithTimeoutCause ctx (RPCTimeout s) ErrEngineAPITimeout) state attrs
          = (Some resp, None)
      \<and> processPayloadStatusResult (PayloadStatus resp) = (lvh, Some e)
    \<longrightarrow> fst (ForkchoiceUpdated v s tr ctx state attrs fv) = (None, lvh, Some e))
   \<and> (Status (PayloadStatus resp) = PayloadStatusSyncing
      \<and> LatestValidHash (PayloadStatus resp) = Some h
    \<longrightarrow> processPayloadStatusResult (PayloadStatus resp)
          = (Some h, Some ErrSyncingPayloadStatus))"
  by (auto simp: NewPayload_def callNewPayloadRPC_def ForkchoiceUpdated_def
      callUpdatedForkchoiceRPC_def processPayloadStatusResult_def Let_def
      split: option.splits)

text \<open>
  Witness of C9, the scenario of the spec: the peer answers Syncing with latest valid
  hash 7, which is not zero.
\<close>

theorem C9_soft_failure_carries_hash_witness:
  "Status syncing_status = PayloadStatusSyncing
   \<and> LatestValidHash syncing_status = Some 7 \<and> (7 :: ExecutionHash) \<noteq> 0
   \<and> fst (NewPayload example_versions (example_client None) [] example_ctx
            (example_payload 4) [] None) = (Some 7, Some ErrSyncingPayloadStatus)
   \<and> fst (ForkchoiceUpdated example_versions (example_client None) [] example_ctx
            \<lparr> HeadBlockHash = 2, SafeBlockHash = 1, FinalizedBlockHash = 1 \<rparr> None 4)
       = (None, Some 7, Some ErrSyncingPayloadStatus)"
proof -
  let ?st = "\<lparr> HeadBlockHash = 2, SafeBlockHash = 1, FinalizedBlockHash = 1 \<rparr>"
  have s: "Status syncing_status = PayloadStatusSyncing"
          "LatestValidHash syncing_status = Some 7"
    by (simp_all add: syncing_status_def)
  have v: "Version (example_payload 4) = Deneb example_versions"
          "(4 :: 32 word) = Deneb example_versions"
    by (simp_all add: example_payload_def example_versions_def)
  have n: "NewPayloadV3 (example_client None) []
             (WithTimeoutCause example_ctx (RPCTimeout (example_client None))
                ErrEngineAPITimeout) (example_payload 4) [] None
           = (Some syncing_status, None)"
    by (simp add: example_client_def)
  have f: "ForkchoiceUpdatedV3 (example_client None) ([] @ fee_recipient_warning None)
             (WithTimeoutCause example_ctx (RPCTimeout (example_client None))
                ErrEngineAPITimeout) ?st None
           = (Some \<lparr> PayloadStatus = syncing_status, PayloadID = Some 1 \<rparr>, None)"
    by (simp add: example_client_def)
  note c = C9_soft_failure_carries_hash [of "example_payload 4" example_versions
         "example_client None" "[]" example_ctx "[]" None syncing_status 7 4 None ?st
         "\<lparr> PayloadStatus = syncing_status, PayloadID = Some 1 \<rparr>"
         "Some 7" ErrSyncingPayloadStatus]
  from c s v n have a: "fst (NewPayload example_versions (example_client None) []
            example_ctx (example_payload 4) [] None) = (Some 7, Some ErrSyncingPayloadStatus)"
    by simp
  from c s v f have b: "fst (ForkchoiceUpdated example_versions (example_client None) []
            example_ctx ?st None 4) = (None, Some 7, Some ErrSyncingPayloadStatus)"
    by simp
  from a b s show ?thesis by simp
qed

end
